theory Spec2Isabelle
  imports Complex_Main "HOL-Library.Word" "HOL-Library.Log_Nat"
begin

section \<open>cropfish: locating a checkerboard and cropping the image around it\<close>

text \<open>
  The development follows \<^verbatim>\<open>src/cropfish/cropfish.py\<close>. Coordinates are NumPy
  floating-point vectors in the source; here their components are real numbers.
  \<open>scale_corners\<close> reads each arithmetic operation of the source as the exact operation,
  and \<open>scale_corners_float\<close> reads it as the operation rounded to the precision of the
  array. The functions of OpenCV that the source calls (\<^verbatim>\<open>cv2.imread\<close>,
  \<^verbatim>\<open>cv2.resize\<close>, \<^verbatim>\<open>cv2.cvtColor\<close>, \<^verbatim>\<open>cv2.findChessboardCorners\<close>) are parameters of
  the model, collected in a record; what the program asks of the outside world (reading
  and writing a file, printing, running the detector) is recorded as a list of events.
\<close>

subsection \<open>Data model\<close>

text \<open>A coordinate is the 2-element vector \<open>(x, y)\<close>: \<^verbatim>\<open>coord[0]\<close> is \<open>fst\<close>, \<^verbatim>\<open>coord[1]\<close> is \<open>snd\<close>.\<close>

type_synonym coordinate = "real \<times> real"

text \<open>
  An image is a NumPy array indexed \<^verbatim>\<open>[row, column]\<close>. The array carries its shape, so an
  array with no rows still has a column count. A colour pixel (the third axis of the
  array) is one value of the element type.
\<close>

record 'a ndarray =
  nrows :: nat
  ncols :: nat
  pixels :: "'a list list"

definition wf_ndarray :: "'a ndarray \<Rightarrow> bool" where
  "wf_ndarray a \<longleftrightarrow>
     length (pixels a) = nrows a \<and> list_all (\<lambda>r. length r = ncols a) (pixels a)"

subsection \<open>Python and NumPy primitives used by the source\<close>

text \<open>\<^verbatim>\<open>int(x)\<close> on a float truncates towards zero.\<close>

definition py_int :: "real \<Rightarrow> int" where
  "py_int x = (if 0 \<le> x then \<lfloor>x\<rfloor> else \<lceil>x\<rceil>)"

text \<open>
  A slice bound \<open>i\<close> on an axis of length \<open>len\<close>, as the slice \<^verbatim>\<open>a[start:stop]\<close> with step 1
  adjusts it: a negative bound has the length added once and is then floored at 0; a
  bound at or beyond the length becomes the length.
\<close>

definition adjust_index :: "int \<Rightarrow> nat \<Rightarrow> nat" where
  "adjust_index i len =
     (if i < 0 then (if i + int len < 0 then 0 else nat (i + int len))
      else if int len \<le> i then len
      else nat i)"

text \<open>The number of positions the slice selects: none when the start is not below the stop.\<close>

definition slice_length :: "int \<Rightarrow> int \<Rightarrow> nat \<Rightarrow> nat" where
  "slice_length start stop len =
     (let s = adjust_index start len; e = adjust_index stop len
      in if s < e then e - s else 0)"

definition slice :: "int \<Rightarrow> int \<Rightarrow> 'a list \<Rightarrow> 'a list" where
  "slice start stop xs =
     take (slice_length start stop (length xs)) (drop (adjust_index start (length xs)) xs)"

text \<open>The two-axis basic slice \<^verbatim>\<open>a[y0:y1, x0:x1]\<close>.\<close>

definition getitem_slices :: "'a ndarray \<Rightarrow> int \<times> int \<Rightarrow> int \<times> int \<Rightarrow> 'a ndarray" where
  "getitem_slices a ys xs =
     \<lparr> nrows = slice_length (fst ys) (snd ys) (nrows a),
       ncols = slice_length (fst xs) (snd xs) (ncols a),
       pixels = map (slice (fst xs) (snd xs)) (slice (fst ys) (snd ys) (pixels a)) \<rparr>"

subsection \<open>scale_corners\<close>

definition scale_corners :: "coordinate \<Rightarrow> coordinate \<Rightarrow> coordinate \<times> coordinate" where
  "scale_corners coord1 coord2 =
     (let center = ((fst coord1 + fst coord2) / 2, (snd coord1 + snd coord2) / 2);
          scaling_factor = 8 / 6;
          scaled_coord1 = (fst center + (fst coord1 - fst center) * scaling_factor,
                           snd center + (snd coord1 - snd center) * scaling_factor);
          scaled_coord2 = (fst center + (fst coord2 - fst center) * scaling_factor,
                           snd center + (snd coord2 - snd center) * scaling_factor)
      in (scaled_coord1, scaled_coord2))"


subsection \<open>scale_corners in floating point\<close>

text \<open>
  Binary floating point with \<open>p\<close> significant bits, rounding to nearest with ties to the
  even significand, for values in the normal range (overflow and underflow are not
  modelled): \<open>p = 24\<close> is \<^verbatim>\<open>float32\<close>, the type of the corners the detector returns, and
  \<open>p = 53\<close> is \<^verbatim>\<open>float64\<close>. \<open>binade x\<close> is the exponent \<open>e\<close> with
  \<open>2^e \<le> |x| < 2^(e+1)\<close>, and \<open>round_at q\<close> rounds to a multiple of \<open>2^q\<close>.
\<close>

definition pow2 :: "int \<Rightarrow> real" where
  "pow2 q = (if 0 \<le> q then 2 ^ nat q else 1 / 2 ^ nat (- q))"

definition binade :: "real \<Rightarrow> int" where
  "binade x =
     (let a = \<bar>x\<bar>
      in if 1 \<le> a then int (floorlog 2 (nat \<lfloor>a\<rfloor>)) - 1
         else - int (floorlog 2 (nat (\<lceil>1 / a\<rceil> - 1))))"

definition round_at :: "int \<Rightarrow> real \<Rightarrow> real" where
  "round_at q x =
     (let m = x / pow2 q; f = \<lfloor>m\<rfloor>; r = m - of_int f;
          n = (if r < 1 / 2 then f else if 1 / 2 < r then f + 1
               else if even f then f else f + 1)
      in of_int n * pow2 q)"

definition fl :: "nat \<Rightarrow> real \<Rightarrow> real" where
  "fl p x = (if x = 0 then 0 else round_at (binade x - int p + 1) x)"


subsection \<open>crop_image\<close>

definition crop_image :: "'a ndarray \<Rightarrow> coordinate \<Rightarrow> coordinate \<Rightarrow> 'a ndarray" where
  "crop_image img coord1 coord2 =
     (let min_x = py_int (min (fst coord1) (fst coord2));
          max_x = py_int (max (fst coord1) (fst coord2));
          min_y = py_int (min (snd coord1) (snd coord2));
          max_y = py_int (max (snd coord1) (snd coord2))
      in getitem_slices img (min_y, max_y) (min_x, max_x))"

subsection \<open>Errors, events and the OpenCV interface\<close>

datatype error =
    NameError string
  | ModuleNotFoundError string
  | ZeroDivisionError
  | IndexError
  | CvError string

text \<open>The three lines the program prints.\<close>

datatype message =
    Trying_threshold nat
  | Corners_not_found
  | Rectangle_coordinates coordinate coordinate

datatype 'a event =
    Imread string
  | Print message
  | FindChessboardCorners "8 word ndarray" "nat \<times> nat"
  | Imwrite string "'a ndarray"

text \<open>
  The OpenCV functions the source calls. \<^verbatim>\<open>cv2.imread\<close> returns \<^verbatim>\<open>None\<close> for a file it
  cannot decode; the others raise \<^verbatim>\<open>cv2.error\<close> on an argument they reject.
  \<^verbatim>\<open>cv2.findChessboardCorners\<close> returns the flag \<^verbatim>\<open>ret\<close> and the corners found (an
  array of shape \<open>N \<times> 1 \<times> 2\<close>, here the list of its \<open>N\<close> points).
\<close>

record 'a cv2 =
  imread :: "string \<Rightarrow> 'a ndarray option"
  resize :: "'a ndarray \<Rightarrow> real \<Rightarrow> real \<Rightarrow> error + 'a ndarray"
  cvtColor_BGR2GRAY :: "'a ndarray \<Rightarrow> error + 8 word ndarray"
  findChessboardCorners :: "8 word ndarray \<Rightarrow> nat \<times> nat \<Rightarrow> error + bool \<times> coordinate list"
  imwrite :: "string \<Rightarrow> 'a ndarray \<Rightarrow> error + bool"

subsection \<open>find_corners\<close>

text \<open>\<^verbatim>\<open>(gray < threshold_value).astype(np.uint8) * 255\<close>, element by element.\<close>

definition binarize :: "8 word ndarray \<Rightarrow> nat \<Rightarrow> 8 word ndarray" where
  "binarize gray threshold_value =
     gray \<lparr> pixels :=
       map (map (\<lambda>p. (if unat p < threshold_value then 1 else 0) * 255)) (pixels gray) \<rparr>"

text \<open>\<^verbatim>\<open>corners *= 1 / resize_factor\<close>, for one corner.\<close>

definition rescale :: "real \<Rightarrow> coordinate \<Rightarrow> coordinate" where
  "rescale resize_factor c = (fst c * (1 / resize_factor), snd c * (1 / resize_factor))"

text \<open>
  The loop \<^verbatim>\<open>for threshold_value in (160, 192)\<close>, as a recursion over the thresholds still to
  be tried. It returns the events of the attempts and either the exception raised or the
  pair returned.
\<close>

fun try_thresholds ::
  "'a cv2 \<Rightarrow> 8 word ndarray \<Rightarrow> real \<Rightarrow> nat list \<Rightarrow>
     'a event list \<times> (error + coordinate option \<times> coordinate option)" where
  "try_thresholds cv gray resize_factor [] =
     ([Print Corners_not_found], Inr (None, None))"
| "try_thresholds cv gray resize_factor (threshold_value # rest) =
     (let binary = binarize gray threshold_value;
          pattern_size = (7, 7);
          attempt = [Print (Trying_threshold threshold_value),
                     FindChessboardCorners binary pattern_size]
      in case findChessboardCorners cv binary pattern_size of
           Inl e \<Rightarrow> (attempt, Inl e)
         | Inr (ret, corners) \<Rightarrow>
             if ret then
               (if resize_factor = 0 then (attempt, Inl ZeroDivisionError)
                else case map (rescale resize_factor) corners of
                       [] \<Rightarrow> (attempt, Inl IndexError)
                     | c # cs \<Rightarrow> (attempt, Inr (Some c, Some (last (c # cs)))))
             else
               (let (later, result) = try_thresholds cv gray resize_factor rest
                in (attempt @ later, result)))"

definition find_corners ::
  "'a cv2 \<Rightarrow> 'a ndarray \<Rightarrow> real \<Rightarrow>
     'a event list \<times> (error + coordinate option \<times> coordinate option)" where
  "find_corners cv img resize_factor =
     (case resize cv img resize_factor resize_factor of
        Inl e \<Rightarrow> ([], Inl e)
      | Inr resized_image \<Rightarrow>
          (case cvtColor_BGR2GRAY cv resized_image of
             Inl e \<Rightarrow> ([], Inl e)
           | Inr gray \<Rightarrow> try_thresholds cv gray resize_factor [160, 192]))"

subsection \<open>cropfish_cli\<close>

text \<open>
  The body of the command, for the path it is given. An image that \<^verbatim>\<open>cv2.imread\<close> could
  not decode is \<^verbatim>\<open>None\<close>, which \<^verbatim>\<open>cv2.resize\<close> rejects inside \<open>find_corners\<close>.
\<close>

definition cropfish_cli :: "'a cv2 \<Rightarrow> string \<Rightarrow> 'a event list \<times> (error + unit)" where
  "cropfish_cli cv image_path =
     (case imread cv image_path of
        None \<Rightarrow> ([Imread image_path], Inl (CvError ''resize''))
      | Some img \<Rightarrow>
          (let resize_factor = 0.5;
               (attempts, found) = find_corners cv img resize_factor
           in case found of
                Inl e \<Rightarrow> (Imread image_path # attempts, Inl e)
              | Inr (Some coord1, Some coord2) \<Rightarrow>
                  (let (scaled_coord1, scaled_coord2) = scale_corners coord1 coord2;
                       cropped_image = crop_image img scaled_coord1 scaled_coord2;
                       events = Imread image_path # attempts @
                                [Print (Rectangle_coordinates scaled_coord1 scaled_coord2),
                                 Imwrite ''output.png'' cropped_image]
                   in case imwrite cv ''output.png'' cropped_image of
                        Inl e \<Rightarrow> (events, Inl e)
                      | Inr _ \<Rightarrow> (events, Inr ()))
              | Inr _ \<Rightarrow> (Imread image_path # attempts, Inr ())))"

subsection \<open>Loading the module\<close>

text \<open>
  The statements at the top level of the file run in order against the module's namespace,
  the list of names bound so far. Evaluating a name that is neither bound there nor
  provided by the interpreter (a built-in, or the module attributes \<^verbatim>\<open>__name__\<close> and
  \<^verbatim>\<open>__doc__\<close>) raises \<^verbatim>\<open>NameError\<close>; importing a module that is not installed
  raises \<^verbatim>\<open>ModuleNotFoundError\<close>.
\<close>

type_synonym namespace = "string list"

definition builtin_names :: "string list" where
  "builtin_names = [''__name__'', ''__doc__'', ''dict'', ''float'', ''int'', ''min'', ''max'', ''print'']"

definition load_name :: "namespace \<Rightarrow> string \<Rightarrow> error + unit" where
  "load_name ns n = (if n \<in> set ns \<or> n \<in> set builtin_names then Inr () else Inl (NameError n))"

fun load_names :: "namespace \<Rightarrow> string list \<Rightarrow> error + unit" where
  "load_names ns [] = Inr ()"
| "load_names ns (n # rest) =
     (case load_name ns n of Inl e \<Rightarrow> Inl e | Inr _ \<Rightarrow> load_names ns rest)"

text \<open>\<^verbatim>\<open>import m\<close>, \<^verbatim>\<open>import m as n\<close> and \<^verbatim>\<open>from m import a, b\<close>: the names they bind.\<close>

definition import_module :: "string list \<Rightarrow> string \<Rightarrow> string list \<Rightarrow> namespace \<Rightarrow> error + namespace" where
  "import_module installed m bound ns =
     (if m \<in> set installed then Inr (bound @ ns) else Inl (ModuleNotFoundError m))"

text \<open>
  A \<^verbatim>\<open>def\<close> statement evaluates the names of its decorator expressions, top to bottom, then
  those of its annotations, and then binds the function's name.
\<close>

definition def_function :: "string list \<Rightarrow> string \<Rightarrow> namespace \<Rightarrow> error + namespace" where
  "def_function evaluated name ns =
     (case load_names ns evaluated of Inl e \<Rightarrow> Inl e | Inr _ \<Rightarrow> Inr (name # ns))"

fun exec_statements :: "(namespace \<Rightarrow> error + namespace) list \<Rightarrow> namespace \<Rightarrow> error + namespace" where
  "exec_statements [] ns = Inr ns"
| "exec_statements (stmt # rest) ns =
     (case stmt ns of Inl e \<Rightarrow> Inl e | Inr ns' \<Rightarrow> exec_statements rest ns')"

text \<open>Lines 1 to 68 of the file: three imports and four function definitions.\<close>

definition module_statements :: "string list \<Rightarrow> (namespace \<Rightarrow> error + namespace) list" where
  "module_statements installed =
     [import_module installed ''cv2'' [''cv2''],
      import_module installed ''numpy'' [''np''],
      import_module installed ''typing'' [''Tuple'', ''Union''],
      def_function [''np'', ''np'', ''Tuple'', ''np'', ''np''] ''scale_corners'',
      def_function [''np'', ''float'', ''Tuple'', ''Union'', ''np'', ''Union'', ''np'']
        ''find_corners'',
      def_function [''np'', ''np'', ''np'', ''np''] ''crop_image'',
      def_function [''click'', ''dict'', ''__doc__'', ''click'', ''click''] ''cropfish_cli'']"

definition load_module :: "string list \<Rightarrow> error + namespace" where
  "load_module installed = exec_statements (module_statements installed) []"

text \<open>
  Running the file: the module body, then the guard
  \<^verbatim>\<open>if __name__ == "__main__": cropfish_cli()\<close>, where the command is handed the path
  argument.
\<close>

definition run_file ::
  "string list \<Rightarrow> string \<Rightarrow> 'a cv2 \<Rightarrow> string \<Rightarrow> 'a event list \<times> (error + unit)" where
  "run_file installed dunder_name cv image_path =
     (case load_module installed of
        Inl e \<Rightarrow> ([], Inl e)
      | Inr ns \<Rightarrow>
          if dunder_name = ''__main__'' then
            (case load_name ns ''cropfish_cli'' of
               Inl e \<Rightarrow> ([], Inl e)
             | Inr _ \<Rightarrow> cropfish_cli cv image_path)
          else ([], Inr ()))"

subsection \<open>Notions of the specification\<close>

text \<open>
  The rectangle of an array between explicit positions, row by row and element by element:
  rows \<open>y0\<close> up to but not including \<open>y1\<close>, columns \<open>x0\<close> up to but not including \<open>x1\<close>.
\<close>

definition sub_array :: "'a ndarray \<Rightarrow> nat \<Rightarrow> nat \<Rightarrow> nat \<Rightarrow> nat \<Rightarrow> 'a ndarray" where
  "sub_array a y0 y1 x0 x1 =
     \<lparr> nrows = y1 - y0, ncols = x1 - x0,
       pixels = map (\<lambda>i. map (\<lambda>j. pixels a ! i ! j) [x0..<x1]) [y0..<y1] \<rparr>"

text \<open>A bound truncated to the nearer edge of an axis of length \<open>len\<close>.\<close>

definition clamp_to_edge :: "int \<Rightarrow> nat \<Rightarrow> nat" where
  "clamp_to_edge b len = (if b < 0 then 0 else if int len < b then len else nat b)"

text \<open>A negative bound read as an offset from the far end of the axis, floored at 0.\<close>

definition from_far_end :: "int \<Rightarrow> nat \<Rightarrow> nat" where
  "from_far_end b len = nat (max 0 (int len + b))"

text \<open>The crop with every bound truncated to the image edge.\<close>

definition crop_clamped :: "'a ndarray \<Rightarrow> coordinate \<Rightarrow> coordinate \<Rightarrow> 'a ndarray" where
  "crop_clamped img c1 c2 =
     sub_array img
       (clamp_to_edge (py_int (min (snd c1) (snd c2))) (nrows img))
       (clamp_to_edge (py_int (max (snd c1) (snd c2))) (nrows img))
       (clamp_to_edge (py_int (min (fst c1) (fst c2))) (ncols img))
       (clamp_to_edge (py_int (max (fst c1) (fst c2))) (ncols img))"

definition midpoint_of :: "coordinate \<Rightarrow> coordinate \<Rightarrow> coordinate" where
  "midpoint_of c1 c2 = ((fst c1 + fst c2) / 2, (snd c1 + snd c2) / 2)"


text \<open>The events that write a file.\<close>

fun is_write :: "'a event \<Rightarrow> bool" where
  "is_write (Imwrite name img) = True"
| "is_write other = False"

subsection \<open>Concrete inputs\<close>

definition example_row :: "nat ndarray" where
  "example_row = \<lparr> nrows = 1, ncols = 4, pixels = [[10, 11, 12, 13]] \<rparr>"

definition example_image :: "nat ndarray" where
  "example_image = \<lparr> nrows = 2, ncols = 4, pixels = [[10, 11, 12, 13], [20, 21, 22, 23]] \<rparr>"

definition example_gray :: "8 word ndarray" where
  "example_gray = \<lparr> nrows = 1, ncols = 2, pixels = [[150, 170]] \<rparr>"

text \<open>
  A stand-in for OpenCV: one readable file, a resize and a grey conversion that always
  succeed, and a detector that finds two corners once every pixel of the binary image is
  white.
\<close>

definition example_cv :: "nat cv2" where
  "example_cv =
     \<lparr> imread = (\<lambda>path. if path = ''board.png'' then Some example_image else None),
       resize = (\<lambda>img fx fy. Inr img),
       cvtColor_BGR2GRAY = (\<lambda>img. Inr example_gray),
       findChessboardCorners =
         (\<lambda>binary pattern_size.
            if pixels binary = [[255, 255]] then Inr (True, [(1, 1 / 2), (3 / 2, 1)])
            else Inr (False, [])),
       imwrite = (\<lambda>name img. Inr True) \<rparr>"

text \<open>The same with a detector that always succeeds, and with one that never does.\<close>

definition example_cv_always :: "nat cv2" where
  "example_cv_always =
     example_cv \<lparr> findChessboardCorners :=
       (\<lambda>binary pattern_size. Inr (True, [(1, 1 / 2), (3 / 2, 1)])) \<rparr>"

definition example_cv_never :: "nat cv2" where
  "example_cv_never =
     example_cv \<lparr> findChessboardCorners := (\<lambda>binary pattern_size. Inr (False, [])) \<rparr>"

text \<open>A detector that raises, and a resize that rejects an image it would scale to nothing.\<close>

definition example_cv_raising :: "nat cv2" where
  "example_cv_raising =
     example_cv \<lparr> findChessboardCorners :=
       (\<lambda>binary pattern_size. Inl (CvError ''findChessboardCorners'')) \<rparr>"

definition example_pixel :: "nat ndarray" where
  "example_pixel = \<lparr> nrows = 1, ncols = 1, pixels = [[255]] \<rparr>"

definition example_cv_strict :: "nat cv2" where
  "example_cv_strict =
     example_cv_never \<lparr> resize :=
       (\<lambda>img fx fy.
          if real (ncols img) * fx < 1 / 2 \<or> real (nrows img) * fy < 1 / 2
          then Inl (CvError ''resize'') else Inr img) \<rparr>"

section \<open>Properties\<close>

subsection \<open>Slices as rectangles\<close>

lemma adjust_index_le: "adjust_index i len \<le> len"
  by (auto simp: adjust_index_def)

lemma slice_length_eq:
  "slice_length start stop len = adjust_index stop len - adjust_index start len"
  by (simp add: slice_length_def Let_def)

lemma take_drop_nth:
  assumes "e \<le> length xs"
  shows "take (e - s) (drop s xs) = map (\<lambda>j. xs ! j) [s..<e]"
proof -
  have "take (e - s) (drop s xs) = drop s (take e xs)"
    by (simp add: drop_take)
  also have "take e xs = map (\<lambda>j. xs ! j) [0..<e]"
    using assms by (intro nth_equalityI) auto
  also have "drop s (map (\<lambda>j. xs ! j) [0..<e]) = map (\<lambda>j. xs ! j) [s..<e]"
    by (simp add: drop_map)
  finally show ?thesis .
qed

lemma slice_nth:
  "slice start stop xs =
     map (\<lambda>j. xs ! j) [adjust_index start (length xs)..<adjust_index stop (length xs)]"
  unfolding slice_def slice_length_eq by (rule take_drop_nth) (rule adjust_index_le)

lemma getitem_slices_sub_array:
  assumes "wf_ndarray a"
  shows "getitem_slices a (y0, y1) (x0, x1) =
     sub_array a (adjust_index y0 (nrows a)) (adjust_index y1 (nrows a))
                 (adjust_index x0 (ncols a)) (adjust_index x1 (ncols a))"
proof -
  have len: "length (pixels a) = nrows a"
    and rows: "\<And>r. r \<in> set (pixels a) \<Longrightarrow> length r = ncols a"
    using assms by (auto simp: wf_ndarray_def list_all_iff)
  have "map (slice x0 x1) (slice y0 y1 (pixels a)) =
        map (\<lambda>i. map (\<lambda>j. pixels a ! i ! j)
                   [adjust_index x0 (ncols a)..<adjust_index x1 (ncols a)])
            [adjust_index y0 (nrows a)..<adjust_index y1 (nrows a)]"
  proof -
    have "\<And>i. i < adjust_index y1 (nrows a) \<Longrightarrow> length (pixels a ! i) = ncols a"
      using adjust_index_le [of y1 "nrows a"] len rows by (metis nth_mem order_less_le_trans)
    then show ?thesis
      by (simp add: slice_nth [of y0 y1] len slice_nth [of x0 x1])
  qed
  then show ?thesis
    by (simp add: getitem_slices_def sub_array_def slice_length_eq)
qed

lemma wf_sub_array: "wf_ndarray (sub_array a y0 y1 x0 x1)"
  by (simp add: wf_ndarray_def sub_array_def list_all_iff)

lemma py_int_mono:
  assumes "x \<le> y"
  shows "py_int x \<le> py_int y"
proof -
  have "\<lceil>x\<rceil> \<le> \<lfloor>y\<rfloor>" if "x < 0" "0 \<le> y"
  proof -
    have "\<lceil>x\<rceil> \<le> 0" using that(1) by (simp add: ceiling_le_zero)
    moreover have "0 \<le> \<lfloor>y\<rfloor>" using that(2) by simp
    ultimately show ?thesis by linarith
  qed
  with assms show ?thesis
    unfolding py_int_def by (auto intro: floor_mono ceiling_mono)
qed

lemma adjust_index_nonneg: "0 \<le> b \<Longrightarrow> adjust_index b len = clamp_to_edge b len"
  by (auto simp: adjust_index_def clamp_to_edge_def)

lemma adjust_index_neg: "b < 0 \<Longrightarrow> adjust_index b len = from_far_end b len"
  by (auto simp: adjust_index_def from_far_end_def)

lemma crop_image_sub_array:
  assumes "wf_ndarray img"
  shows "crop_image img c1 c2 =
     sub_array img
       (adjust_index (py_int (min (snd c1) (snd c2))) (nrows img))
       (adjust_index (py_int (max (snd c1) (snd c2))) (nrows img))
       (adjust_index (py_int (min (fst c1) (fst c2))) (ncols img))
       (adjust_index (py_int (max (fst c1) (fst c2))) (ncols img))"
  by (simp add: crop_image_def Let_def getitem_slices_sub_array [OF assms])

lemma wf_example_row: "wf_ndarray example_row"
  by (simp add: wf_ndarray_def example_row_def)

lemma wf_example_image: "wf_ndarray example_image"
  by (simp add: wf_ndarray_def example_image_def)

subsection \<open>crop_image\<close>

text \<open>
  C1, as stated: for every image and coordinate pair \<open>crop_image\<close> returns the rectangle
  between the integer-truncated bounds with every bound outside the image truncated to
  the image edge, a negative bound included. This fails on a one-row image four pixels
  wide with the corners \<open>(-2, 0)\<close> and \<open>(3, 1)\<close>: truncating \<open>-2\<close> to the edge would keep
  columns 0 to 2, while the slice starts two columns before the far end and keeps
  column 2 only.
\<close>

theorem crop_image_not_clamped:
  "crop_image example_row (- 2, 0) (3, 1) \<noteq> crop_clamped example_row (- 2, 0) (3, 1)"
  by (simp add: crop_image_def crop_clamped_def example_row_def getitem_slices_def slice_def
      slice_length_def adjust_index_def clamp_to_edge_def sub_array_def py_int_def Let_def)

text \<open>
  C1, amended: for every well-formed image and every coordinate pair whose truncated lower
  bounds are not negative, \<open>crop_image\<close> returns, without raising, the rectangle between
  the integer-truncated minima and maxima of the two coordinates, each bound beyond the
  image's extent truncated to the image edge; the result is again a well-formed array.
\<close>

theorem crop_image_clamps_nonnegative:
  assumes "wf_ndarray img"
      and "0 \<le> py_int (min (fst c1) (fst c2))"
      and "0 \<le> py_int (min (snd c1) (snd c2))"
  shows "crop_image img c1 c2 = crop_clamped img c1 c2 \<and> wf_ndarray (crop_image img c1 c2)"
proof -
  have "py_int (min (fst c1) (fst c2)) \<le> py_int (max (fst c1) (fst c2))"
       "py_int (min (snd c1) (snd c2)) \<le> py_int (max (snd c1) (snd c2))"
    by (rule py_int_mono, simp)+
  with assms(2,3)
  have "0 \<le> py_int (max (fst c1) (fst c2))" "0 \<le> py_int (max (snd c1) (snd c2))"
    by linarith+
  with assms(2,3) have "crop_image img c1 c2 = crop_clamped img c1 c2"
    by (simp add: crop_image_sub_array [OF assms(1)] crop_clamped_def adjust_index_nonneg)
  then show ?thesis
    by (simp add: crop_clamped_def wf_sub_array)
qed

theorem crop_image_clamps_nonnegative_witness:
  "wf_ndarray example_image \<and>
   0 \<le> py_int (min (fst (1 / 2, 2::real)) (fst (9, 1::real))) \<and>
   0 \<le> py_int (min (snd (1 / 2::real, 2)) (snd (9::real, 1))) \<and>
   crop_image example_image (1 / 2, 2) (9, 1) = crop_clamped example_image (1 / 2, 2) (9, 1) \<and>
   crop_clamped example_image (1 / 2, 2) (9, 1) =
     \<lparr> nrows = 1, ncols = 4, pixels = [[20, 21, 22, 23]] \<rparr>"
proof -
  have x: "0 \<le> py_int (min (fst (1 / 2, 2::real)) (fst (9, 1::real)))"
    and y: "0 \<le> py_int (min (snd (1 / 2::real, 2)) (snd (9::real, 1)))"
    by (simp_all add: py_int_def)
  have v: "crop_clamped example_image (1 / 2, 2) (9, 1) =
     \<lparr> nrows = 1, ncols = 4, pixels = [[20, 21, 22, 23]] \<rparr>"
    by code_simp
  show ?thesis
    using crop_image_clamps_nonnegative [OF wf_example_image x y] wf_example_image x y v
    by simp
qed

text \<open>
  C8: \<open>crop_image\<close> is symmetric in its two coordinate arguments, for every image and all
  coordinate pairs.
\<close>

theorem crop_image_symmetric: "crop_image img c1 c2 = crop_image img c2 c1"
  by (simp add: crop_image_def min.commute max.commute)

text \<open>
  C9: for every well-formed image and coordinate pair whose integer-truncated minima and
  maxima all lie within the image bounds, the array returned by \<open>crop_image\<close> has exactly
  \<open>max_y - min_y\<close> rows and \<open>max_x - min_x\<close> columns, in its shape and in its data; where
  the truncated coordinates coincide on the row axis the result has no rows, and no
  error is raised.
\<close>

theorem crop_image_shape:
  assumes "wf_ndarray img"
      and "min_x = py_int (min (fst c1) (fst c2))" and "max_x = py_int (max (fst c1) (fst c2))"
      and "min_y = py_int (min (snd c1) (snd c2))" and "max_y = py_int (max (snd c1) (snd c2))"
      and "0 \<le> min_x" and "max_x \<le> int (ncols img)"
      and "0 \<le> min_y" and "max_y \<le> int (nrows img)"
  shows "int (nrows (crop_image img c1 c2)) = max_y - min_y \<and>
         int (ncols (crop_image img c1 c2)) = max_x - min_x \<and>
         int (length (pixels (crop_image img c1 c2))) = max_y - min_y \<and>
         (\<forall>r \<in> set (pixels (crop_image img c1 c2)). int (length r) = max_x - min_x) \<and>
         (max_y = min_y \<longrightarrow> pixels (crop_image img c1 c2) = [])"
proof -
  have x: "min_x \<le> max_x" and y: "min_y \<le> max_y"
    unfolding assms(2-5) by (rule py_int_mono, simp)+
  have ax: "adjust_index min_x (ncols img) = nat min_x"
           "adjust_index max_x (ncols img) = nat max_x"
    using x assms(6,7) by (auto simp: adjust_index_def)
  have ay: "adjust_index min_y (nrows img) = nat min_y"
           "adjust_index max_y (nrows img) = nat max_y"
    using y assms(8,9) by (auto simp: adjust_index_def)
  have crop: "crop_image img c1 c2 = sub_array img (nat min_y) (nat max_y) (nat min_x) (nat max_x)"
    using crop_image_sub_array [OF assms(1), of c1 c2] by (simp add: assms(2-5) [symmetric] ax ay)
  show ?thesis
    unfolding crop using x y assms(6,8) by (auto simp: sub_array_def)
qed

theorem crop_image_shape_witness:
  "wf_ndarray example_image \<and>
   py_int (min (1 / 2) (7 / 2)) = 0 \<and> py_int (max (1 / 2) (7 / 2)) = 3 \<and>
   py_int (min 2 (1::real)) = 1 \<and> py_int (max 2 (1::real)) = 2 \<and>
   int (nrows (crop_image example_image (1 / 2, 2) (7 / 2, 1))) = 2 - 1 \<and>
   int (ncols (crop_image example_image (1 / 2, 2) (7 / 2, 1))) = 3 - 0"
proof -
  have b: "(0::int) = py_int (min (fst (1 / 2, 2::real)) (fst (7 / 2, 1::real)))"
          "(3::int) = py_int (max (fst (1 / 2, 2::real)) (fst (7 / 2, 1::real)))"
          "(1::int) = py_int (min (snd (1 / 2::real, 2)) (snd (7 / 2::real, 1)))"
          "(2::int) = py_int (max (snd (1 / 2::real, 2)) (snd (7 / 2::real, 1)))"
    by (simp_all add: py_int_def)
  have r: "(0::int) \<le> 0" "(3::int) \<le> int (ncols example_image)"
          "(0::int) \<le> 1" "(2::int) \<le> int (nrows example_image)"
    by (simp_all add: example_image_def)
  show ?thesis
    using crop_image_shape [OF wf_example_image b r] wf_example_image b by simp
qed

text \<open>
  C10: where an integer-truncated lower bound is negative, \<open>crop_image\<close> hands the negative
  value to the slice, which reads it as an offset from the far end of that axis (the length
  plus the bound, floored at 0) and not as position 0. A lower x-bound of \<open>-10\<close> on an image
  1000 pixels wide starts at column 990, so the bounds \<open>-10\<close> and \<open>50\<close> give a crop with no
  columns. \<open>scale_corners\<close> produces such bounds from corners inside the image: the
  corners \<open>(6, 6)\<close> and \<open>(606, 606)\<close> are scaled to \<open>(-94, -94)\<close> and \<open>(706, 706)\<close>.
\<close>

theorem crop_image_negative_bound:
  "(wf_ndarray img \<and> py_int (min (fst c1) (fst c2)) < 0 \<longrightarrow>
      crop_image img c1 c2 =
        sub_array img
          (adjust_index (py_int (min (snd c1) (snd c2))) (nrows img))
          (adjust_index (py_int (max (snd c1) (snd c2))) (nrows img))
          (from_far_end (py_int (min (fst c1) (fst c2))) (ncols img))
          (adjust_index (py_int (max (fst c1) (fst c2))) (ncols img))) \<and>
   (wf_ndarray img \<and> py_int (min (snd c1) (snd c2)) < 0 \<longrightarrow>
      crop_image img c1 c2 =
        sub_array img
          (from_far_end (py_int (min (snd c1) (snd c2))) (nrows img))
          (adjust_index (py_int (max (snd c1) (snd c2))) (nrows img))
          (adjust_index (py_int (min (fst c1) (fst c2))) (ncols img))
          (adjust_index (py_int (max (fst c1) (fst c2))) (ncols img))) \<and>
   (b < 0 \<and> - int len < b \<longrightarrow>
      int (from_far_end b len) = int len + b \<and> 0 < from_far_end b len) \<and>
   from_far_end (- 10) 1000 = 990 \<and>
   (wf_ndarray img \<and> ncols img = 1000 \<and>
    py_int (min (fst c1) (fst c2)) = - 10 \<and> py_int (max (fst c1) (fst c2)) = 50 \<longrightarrow>
      ncols (crop_image img c1 c2) = 0 \<and>
      (\<forall>r \<in> set (pixels (crop_image img c1 c2)). r = [])) \<and>
   scale_corners (6, 6) (606, 606) = ((- 94, - 94), (706, 706)) \<and>
   py_int (min (- 94) 706) = - 94"
proof (intro conjI impI)
  assume "wf_ndarray img \<and> py_int (min (fst c1) (fst c2)) < 0"
  then show "crop_image img c1 c2 =
        sub_array img
          (adjust_index (py_int (min (snd c1) (snd c2))) (nrows img))
          (adjust_index (py_int (max (snd c1) (snd c2))) (nrows img))
          (from_far_end (py_int (min (fst c1) (fst c2))) (ncols img))
          (adjust_index (py_int (max (fst c1) (fst c2))) (ncols img))"
    by (simp add: crop_image_sub_array adjust_index_neg)
next
  assume "wf_ndarray img \<and> py_int (min (snd c1) (snd c2)) < 0"
  then show "crop_image img c1 c2 =
        sub_array img
          (from_far_end (py_int (min (snd c1) (snd c2))) (nrows img))
          (adjust_index (py_int (max (snd c1) (snd c2))) (nrows img))
          (adjust_index (py_int (min (fst c1) (fst c2))) (ncols img))
          (adjust_index (py_int (max (fst c1) (fst c2))) (ncols img))"
    by (simp add: crop_image_sub_array adjust_index_neg)
next
  assume "b < 0 \<and> - int len < b"
  then show "int (from_far_end b len) = int len + b" and "0 < from_far_end b len"
    by (auto simp: from_far_end_def)
next
  show "from_far_end (- 10) 1000 = 990"
    by (simp add: from_far_end_def)
next
  assume h: "wf_ndarray img \<and> ncols img = 1000 \<and>
    py_int (min (fst c1) (fst c2)) = - 10 \<and> py_int (max (fst c1) (fst c2)) = 50"
  then have crop: "crop_image img c1 c2 =
      sub_array img (adjust_index (py_int (min (snd c1) (snd c2))) (nrows img))
          (adjust_index (py_int (max (snd c1) (snd c2))) (nrows img)) 990 50"
    by (simp add: crop_image_sub_array adjust_index_def)
  show "ncols (crop_image img c1 c2) = 0"
    and "\<forall>r \<in> set (pixels (crop_image img c1 c2)). r = []"
    unfolding crop by (auto simp: sub_array_def)
next
  show "scale_corners (6, 6) (606, 606) = ((- 94, - 94), (706, 706))"
    by (simp add: scale_corners_def Let_def)
next
  show "py_int (min (- 94) 706) = - 94"
    by (simp add: py_int_def)
qed

theorem crop_image_negative_bound_witness:
  "wf_ndarray example_row \<and> py_int (min (fst (- 2, 0::real)) (fst (3, 1::real))) < 0 \<and>
   crop_image example_row (- 2, 0) (3, 1) = \<lparr> nrows = 1, ncols = 1, pixels = [[12]] \<rparr>"
proof -
  have h: "wf_ndarray example_row \<and> py_int (min (fst (- 2, 0::real)) (fst (3, 1::real))) < 0"
    by (simp add: wf_example_row py_int_def)
  have "crop_image example_row (- 2, 0) (3, 1) =
        sub_array example_row
          (adjust_index (py_int (min (snd (- 2::real, 0)) (snd (3::real, 1)))) (nrows example_row))
          (adjust_index (py_int (max (snd (- 2::real, 0)) (snd (3::real, 1)))) (nrows example_row))
          (from_far_end (py_int (min (fst (- 2, 0::real)) (fst (3, 1::real)))) (ncols example_row))
          (adjust_index (py_int (max (fst (- 2, 0::real)) (fst (3, 1::real)))) (ncols example_row))"
    using crop_image_negative_bound [of example_row "(- 2, 0)" "(3, 1)"] h by blast
  also have "\<dots> = \<lparr> nrows = 1, ncols = 1, pixels = [[12]] \<rparr>"
    by code_simp
  finally show ?thesis using h by simp
qed

subsection \<open>scale_corners\<close>


lemma pow2_pos: "0 < pow2 q"
  by (simp add: pow2_def)

lemma round_at_error: "\<bar>round_at q x - x\<bar> \<le> pow2 q / 2"
proof -
  define m where "m = x / pow2 q"
  define f where "f = \<lfloor>m\<rfloor>"
  define n where "n = (if m - of_int f < 1 / 2 then f else if 1 / 2 < m - of_int f then f + 1
               else if even f then f else f + 1)"
  have r: "round_at q x = of_int n * pow2 q"
    by (simp add: round_at_def Let_def m_def f_def n_def)
  have x: "x = m * pow2 q"
    using pow2_pos [of q] by (simp add: m_def)
  have "of_int f \<le> m" "m < of_int f + 1"
    unfolding f_def by linarith+
  then have "\<bar>of_int n - m\<bar> \<le> 1 / 2"
    unfolding n_def by (auto simp: abs_if)
  then have "\<bar>of_int n - m\<bar> * pow2 q \<le> 1 / 2 * pow2 q"
    using pow2_pos [of q] by (intro mult_right_mono) simp_all
  moreover have "round_at q x - x = (of_int n - m) * pow2 q"
    unfolding r using x by (simp add: algebra_simps)
  ultimately show ?thesis
    using pow2_pos [of q] by (simp add: abs_mult)
qed

lemma real_pow2_le: "2 ^ j \<le> (n::nat) \<Longrightarrow> (2::real) ^ j \<le> real n"
  by (metis of_nat_le_iff of_nat_numeral of_nat_power)

lemma real_less_pow2: "(n::nat) < 2 ^ j \<Longrightarrow> real n + 1 \<le> (2::real) ^ j"
proof -
  assume "n < 2 ^ j"
  then have "Suc n \<le> 2 ^ j" by simp
  then have "real (Suc n) \<le> real (2 ^ j)" by (simp only: of_nat_le_iff)
  then show ?thesis by simp
qed

lemma binade_bounds:
  assumes "x \<noteq> 0"
  shows "pow2 (binade x) \<le> \<bar>x\<bar> \<and> \<bar>x\<bar> < pow2 (binade x + 1)"
proof (cases "1 \<le> \<bar>x\<bar>")
  case True
  define n where "n = nat \<lfloor>\<bar>x\<bar>\<rfloor>"
  define k where "k = floorlog 2 n"
  have fl1: "1 \<le> \<lfloor>\<bar>x\<bar>\<rfloor>" using True by linarith
  then have rn: "real n = of_int \<lfloor>\<bar>x\<bar>\<rfloor>" by (simp add: n_def)
  have n: "0 < n" "real n \<le> \<bar>x\<bar>" "\<bar>x\<bar> < real n + 1"
  proof -
    show "0 < n" using fl1 by (simp add: n_def)
    show "real n \<le> \<bar>x\<bar>" unfolding rn by linarith
    show "\<bar>x\<bar> < real n + 1" unfolding rn by linarith
  qed
  have b: "2 ^ (k - 1) \<le> n" "n < 2 ^ k"
    using floorlog_bounds [of n 2] n(1) by (simp_all add: k_def)
  have k: "0 < k"
    using n(1) by (simp add: k_def floorlog_def)
  have e: "binade x = int k - 1"
    using True by (simp add: binade_def Let_def n_def k_def)
  have lo: "2 ^ (k - 1) \<le> \<bar>x\<bar>"
    using real_pow2_le [OF b(1)] n(2) by linarith
  have hi: "\<bar>x\<bar> < 2 ^ k"
    using real_less_pow2 [OF b(2)] n(3) by linarith
  have "nat (int k - 1) = k - 1" by simp
  then show ?thesis
    using lo hi k by (simp add: e pow2_def)
next
  case False
  define a where "a = \<bar>x\<bar>"
  have a: "0 < a" "a < 1" using assms False by (simp_all add: a_def)
  define c where "c = \<lceil>1 / a\<rceil>"
  define n where "n = nat (c - 1)"
  define k where "k = floorlog 2 n"
  have inv: "1 < 1 / a" using a by simp
  have c: "1 / a \<le> of_int c" "of_int c < 1 / a + 1"
    unfolding c_def by linarith+
  have c2: "2 \<le> c" using inv c(1) by linarith
  have n: "0 < n" "real n = of_int c - 1"
    using c2 by (simp_all add: n_def)
  have b: "2 ^ (k - 1) \<le> n" "n < 2 ^ k"
    using floorlog_bounds [of n 2] n(1) by (simp_all add: k_def)
  have k: "0 < k"
    using n(1) by (simp add: k_def floorlog_def)
  have e: "binade x = - int k"
    using False by (simp add: binade_def Let_def n_def k_def c_def a_def)
  have "2 ^ (k - 1) < 1 / a"
    using real_pow2_le [OF b(1)] n(2) c(2) by linarith
  then have hi: "a < 1 / 2 ^ (k - 1)"
    using a(1) by (simp add: field_simps)
  have "1 / a \<le> 2 ^ k"
    using real_less_pow2 [OF b(2)] n(2) c(1) by linarith
  then have lo: "1 / 2 ^ k \<le> a"
    using a(1) by (simp add: field_simps)
  have p1: "pow2 (- int k) = 1 / 2 ^ k"
    using k by (simp add: pow2_def)
  have p2: "pow2 (1 - int k) = 1 / 2 ^ (k - 1)"
  proof (cases "k = 1")
    case True then show ?thesis by (simp add: pow2_def)
  next
    case False
    with k have "\<not> 0 \<le> 1 - int k" "nat (- (1 - int k)) = k - 1" by simp_all
    then show ?thesis by (simp only: pow2_def if_False)
  qed
  show ?thesis
    using lo hi by (simp add: e p1 p2 a_def)
qed

lemma fl_error:
  "\<bar>fl p x - x\<bar> \<le> pow2 (binade x - int p + 1) / 2"
proof (cases "x = 0")
  case True
  then show ?thesis
    using pow2_pos [of "binade 0 - int p + 1"] by (simp add: fl_def)
next
  case False
  then show ?thesis
    using round_at_error [of "binade x - int p + 1" x] by (simp add: fl_def)
qed




text \<open>
  C7: for all coordinate pairs \<open>(c1, c2)\<close>, the midpoint of the pair returned by
  \<open>scale_corners\<close> equals the midpoint of \<open>(c1, c2)\<close>, exactly, over exact arithmetic.
\<close>

theorem scale_corners_midpoint:
  "midpoint_of (fst (scale_corners c1 c2)) (snd (scale_corners c1 c2)) = midpoint_of c1 c2"
  by (simp add: scale_corners_def midpoint_of_def Let_def field_simps)

subsection \<open>find_corners\<close>

lemma binarize_pixels:
  "pixels (binarize gray t) = map (map (\<lambda>p. if unat p < t then 255 else 0)) (pixels gray)"
proof -
  have "(\<lambda>p::8 word. (if unat p < t then 1 else 0) * (255::8 word)) =
        (\<lambda>p. if unat p < t then 255 else 0)"
    by (rule ext) simp
  then show ?thesis by (simp add: binarize_def)
qed

lemma binarize_shape: "nrows (binarize gray t) = nrows gray" "ncols (binarize gray t) = ncols gray"
  by (simp_all add: binarize_def)

lemma try_thresholds_no_write: "filter is_write (fst (try_thresholds cv gray rf ts)) = []"
  by (induction ts) (auto simp: Let_def split: sum.splits prod.splits list.splits)

lemma find_corners_no_write: "filter is_write (fst (find_corners cv img rf)) = []"
  by (simp add: find_corners_def try_thresholds_no_write split: sum.splits
      del: try_thresholds.simps)

lemma example_cv_fields:
  "resize example_cv img fx fy = Inr img"
  "cvtColor_BGR2GRAY example_cv img = Inr example_gray"
  "resize example_cv_always img fx fy = Inr img"
  "cvtColor_BGR2GRAY example_cv_always img = Inr example_gray"
  "resize example_cv_never img fx fy = Inr img"
  "cvtColor_BGR2GRAY example_cv_never img = Inr example_gray"
  "imread example_cv ''board.png'' = Some example_image"
  "imread example_cv_never ''board.png'' = Some example_image"
  by (simp_all add: example_cv_def example_cv_always_def example_cv_never_def)

lemma example_binary:
  "binarize example_gray 160 = \<lparr> nrows = 1, ncols = 2, pixels = [[255, 0]] \<rparr>"
  "binarize example_gray 192 = \<lparr> nrows = 1, ncols = 2, pixels = [[255, 255]] \<rparr>"
  by (simp_all add: binarize_def example_gray_def)

lemma example_detections:
  "findChessboardCorners example_cv_always (binarize example_gray 160) (7, 7) =
     Inr (True, [(1, 1 / 2), (3 / 2, 1)])"
  "findChessboardCorners example_cv (binarize example_gray 160) (7, 7) = Inr (False, [])"
  "findChessboardCorners example_cv (binarize example_gray 192) (7, 7) =
     Inr (True, [(1, 1 / 2), (3 / 2, 1)])"
  "findChessboardCorners example_cv_never (binarize example_gray 160) (7, 7) = Inr (False, [])"
  "findChessboardCorners example_cv_never (binarize example_gray 192) (7, 7) = Inr (False, [])"
  by (simp_all add: example_binary example_cv_def example_cv_always_def example_cv_never_def)

lemma example_find_corners:
  "find_corners example_cv example_image 0.5 =
     ([Print (Trying_threshold 160),
       FindChessboardCorners \<lparr> nrows = 1, ncols = 2, pixels = [[255, 0]] \<rparr> (7, 7),
       Print (Trying_threshold 192),
       FindChessboardCorners \<lparr> nrows = 1, ncols = 2, pixels = [[255, 255]] \<rparr> (7, 7)],
      Inr (Some (2, 1), Some (3, 2)))"
  "find_corners example_cv_never example_image 0.5 =
     ([Print (Trying_threshold 160),
       FindChessboardCorners \<lparr> nrows = 1, ncols = 2, pixels = [[255, 0]] \<rparr> (7, 7),
       Print (Trying_threshold 192),
       FindChessboardCorners \<lparr> nrows = 1, ncols = 2, pixels = [[255, 255]] \<rparr> (7, 7),
       Print Corners_not_found],
      Inr (None, None))"
  by (simp_all add: find_corners_def example_cv_fields example_detections rescale_def Let_def)
    (simp_all add: example_binary)

text \<open>
  C3: for every input image and positive resize factor for which the resize and the grey
  conversion return, \<open>find_corners\<close> tries the thresholds 160 then 192 in that order. For
  each it binarizes the grey image of the resized image, a pixel strictly below the
  threshold becoming white (255) and any other black (0), and runs the detector with the
  pattern size \<open>(7, 7)\<close> on the binary image. On the first successful detection it
  divides every corner by the resize factor and returns the first and the last corner in
  the detector's order; after a success at 160 the threshold 192 is not attempted.
\<close>

theorem find_corners_first_success:
  assumes "0 < resize_factor"
      and "resize cv img resize_factor resize_factor = Inr resized"
      and "cvtColor_BGR2GRAY cv resized = Inr gray"
  shows
    "(findChessboardCorners cv (binarize gray 160) (7, 7) = Inr (True, corners) \<and> corners \<noteq> [] \<longrightarrow>
        find_corners cv img resize_factor =
          ([Print (Trying_threshold 160), FindChessboardCorners (binarize gray 160) (7, 7)],
           Inr (Some (hd (map (\<lambda>c. (fst c / resize_factor, snd c / resize_factor)) corners)),
                Some (last (map (\<lambda>c. (fst c / resize_factor, snd c / resize_factor)) corners))))) \<and>
     (findChessboardCorners cv (binarize gray 160) (7, 7) = Inr (False, rejected) \<and>
      findChessboardCorners cv (binarize gray 192) (7, 7) = Inr (True, corners) \<and> corners \<noteq> [] \<longrightarrow>
        find_corners cv img resize_factor =
          ([Print (Trying_threshold 160), FindChessboardCorners (binarize gray 160) (7, 7),
            Print (Trying_threshold 192), FindChessboardCorners (binarize gray 192) (7, 7)],
           Inr (Some (hd (map (\<lambda>c. (fst c / resize_factor, snd c / resize_factor)) corners)),
                Some (last (map (\<lambda>c. (fst c / resize_factor, snd c / resize_factor)) corners))))) \<and>
     nrows (binarize gray t) = nrows gray \<and> ncols (binarize gray t) = ncols gray \<and>
     pixels (binarize gray t) = map (map (\<lambda>p. if unat p < t then 255 else 0)) (pixels gray)"
proof -
  have r: "map (rescale resize_factor) corners =
           map (\<lambda>c. (fst c / resize_factor, snd c / resize_factor)) corners"
    by (simp add: rescale_def)
  have pick: "(case map (rescale resize_factor) corners of
                 [] \<Rightarrow> (ev, Inl IndexError)
               | c # cs \<Rightarrow> (ev, Inr (Some c, Some (last (c # cs))))) =
              (ev, Inr (Some (hd (map (\<lambda>c. (fst c / resize_factor, snd c / resize_factor)) corners)),
                        Some (last (map (\<lambda>c. (fst c / resize_factor, snd c / resize_factor)) corners))))"
    if "corners \<noteq> []" for ev :: "'a event list"
    unfolding r using that by (cases corners) simp_all
  have rf: "resize_factor \<noteq> 0" using assms(1) by simp
  show ?thesis
    using pick rf
    by (simp add: find_corners_def assms(2,3) binarize_pixels binarize_shape Let_def)
qed

theorem find_corners_first_success_witness:
  "0 < (1 / 2 :: real) \<and>
   resize example_cv_always example_image (1 / 2) (1 / 2) = Inr example_image \<and>
   cvtColor_BGR2GRAY example_cv_always example_image = Inr example_gray \<and>
   findChessboardCorners example_cv_always (binarize example_gray 160) (7, 7) =
     Inr (True, [(1, 1 / 2), (3 / 2, 1)]) \<and>
   find_corners example_cv_always example_image (1 / 2) =
     ([Print (Trying_threshold 160),
       FindChessboardCorners \<lparr> nrows = 1, ncols = 2, pixels = [[255, 0]] \<rparr> (7, 7)],
      Inr (Some (2, 1), Some (3, 2))) \<and>
   resize example_cv example_image (1 / 2) (1 / 2) = Inr example_image \<and>
   cvtColor_BGR2GRAY example_cv example_image = Inr example_gray \<and>
   findChessboardCorners example_cv (binarize example_gray 160) (7, 7) = Inr (False, []) \<and>
   findChessboardCorners example_cv (binarize example_gray 192) (7, 7) =
     Inr (True, [(1, 1 / 2), (3 / 2, 1)]) \<and>
   find_corners example_cv example_image (1 / 2) =
     ([Print (Trying_threshold 160),
       FindChessboardCorners \<lparr> nrows = 1, ncols = 2, pixels = [[255, 0]] \<rparr> (7, 7),
       Print (Trying_threshold 192),
       FindChessboardCorners \<lparr> nrows = 1, ncols = 2, pixels = [[255, 255]] \<rparr> (7, 7)],
      Inr (Some (2, 1), Some (3, 2)))"
proof -
  have p: "0 < (1 / 2 :: real)" by simp
  note first =
    find_corners_first_success
      [where corners = "[(1, 1 / 2), (3 / 2, 1)]" and rejected = "[]" and t = 160,
       OF p example_cv_fields(3) example_cv_fields(4)]
  note second =
    find_corners_first_success
      [where corners = "[(1, 1 / 2), (3 / 2, 1)]" and rejected = "[]" and t = 160,
       OF p example_cv_fields(1) example_cv_fields(2)]
  have a: "find_corners example_cv_always example_image (1 / 2) =
     ([Print (Trying_threshold 160),
       FindChessboardCorners \<lparr> nrows = 1, ncols = 2, pixels = [[255, 0]] \<rparr> (7, 7)],
      Inr (Some (2, 1), Some (3, 2)))"
    using first example_detections(1) by (simp add: example_binary)
  have b: "find_corners example_cv example_image (1 / 2) =
     ([Print (Trying_threshold 160),
       FindChessboardCorners \<lparr> nrows = 1, ncols = 2, pixels = [[255, 0]] \<rparr> (7, 7),
       Print (Trying_threshold 192),
       FindChessboardCorners \<lparr> nrows = 1, ncols = 2, pixels = [[255, 255]] \<rparr> (7, 7)],
      Inr (Some (2, 1), Some (3, 2)))"
    using second example_detections(2,3) by (simp add: example_binary)
  show ?thesis
    using a b p example_cv_fields(1-4) example_detections(1-3) by simp
qed

text \<open>
  C5, as stated: if neither threshold yields a successful detection, \<open>find_corners\<close>
  returns \<open>(None, None)\<close> and raises no error, for every input image and positive resize
  factor. The source catches nothing, so an exception of an OpenCV call leaves
  \<open>find_corners\<close>: with a detector that raises at the first threshold, and with a resize
  that rejects a one-pixel image scaled by \<open>1/4\<close>, no detection succeeds and the result is
  the exception, not \<open>(None, None)\<close>.
\<close>

theorem find_corners_raises:
  "0 < (1 / 2 :: real) \<and>
   find_corners example_cv_raising example_image (1 / 2) =
     ([Print (Trying_threshold 160),
       FindChessboardCorners \<lparr> nrows = 1, ncols = 2, pixels = [[255, 0]] \<rparr> (7, 7)],
      Inl (CvError ''findChessboardCorners'')) \<and>
   snd (find_corners example_cv_raising example_image (1 / 2)) \<noteq> Inr (None, None) \<and>
   0 < (1 / 4 :: real) \<and>
   find_corners example_cv_strict example_pixel (1 / 4) = ([], Inl (CvError ''resize'')) \<and>
   snd (find_corners example_cv_strict example_pixel (1 / 4)) \<noteq> Inr (None, None)"
proof -
  have a: "find_corners example_cv_raising example_image (1 / 2) =
     ([Print (Trying_threshold 160),
       FindChessboardCorners \<lparr> nrows = 1, ncols = 2, pixels = [[255, 0]] \<rparr> (7, 7)],
      Inl (CvError ''findChessboardCorners''))"
    by (simp add: find_corners_def example_cv_raising_def example_cv_def Let_def binarize_def
        example_gray_def)
  have b: "find_corners example_cv_strict example_pixel (1 / 4) = ([], Inl (CvError ''resize''))"
    by (simp add: find_corners_def example_cv_strict_def example_cv_never_def example_cv_def
        example_pixel_def)
  show ?thesis
    unfolding a b by simp
qed

text \<open>
  C5, amended: for every input image and resize factor for which the resize, the grey
  conversion and both detector calls return without raising, if neither threshold yields
  a successful detection then \<open>find_corners\<close> returns the pair \<open>(None, None)\<close> and raises
  no error; both thresholds have been attempted, in order, and the failure message
  printed.
\<close>

theorem find_corners_not_found:
  assumes "resize cv img resize_factor resize_factor = Inr resized"
      and "cvtColor_BGR2GRAY cv resized = Inr gray"
      and "findChessboardCorners cv (binarize gray 160) (7, 7) = Inr (False, rejected1)"
      and "findChessboardCorners cv (binarize gray 192) (7, 7) = Inr (False, rejected2)"
  shows "find_corners cv img resize_factor =
          ([Print (Trying_threshold 160), FindChessboardCorners (binarize gray 160) (7, 7),
            Print (Trying_threshold 192), FindChessboardCorners (binarize gray 192) (7, 7),
            Print Corners_not_found],
           Inr (None, None))"
  by (simp add: find_corners_def assms Let_def)

theorem find_corners_not_found_witness:
  "resize example_cv_never example_image (1 / 2) (1 / 2) = Inr example_image \<and>
   cvtColor_BGR2GRAY example_cv_never example_image = Inr example_gray \<and>
   findChessboardCorners example_cv_never (binarize example_gray 160) (7, 7) = Inr (False, []) \<and>
   findChessboardCorners example_cv_never (binarize example_gray 192) (7, 7) = Inr (False, []) \<and>
   find_corners example_cv_never example_image (1 / 2) =
     ([Print (Trying_threshold 160),
       FindChessboardCorners \<lparr> nrows = 1, ncols = 2, pixels = [[255, 0]] \<rparr> (7, 7),
       Print (Trying_threshold 192),
       FindChessboardCorners \<lparr> nrows = 1, ncols = 2, pixels = [[255, 255]] \<rparr> (7, 7),
       Print Corners_not_found],
      Inr (None, None))"
  using find_corners_not_found
      [OF example_cv_fields(5) example_cv_fields(6) example_detections(4) example_detections(5),
       of example_image "1 / 2"]
    example_cv_fields(5,6) example_detections(4,5)
  by (simp add: example_binary)

subsection \<open>cropfish_cli\<close>

text \<open>
  C4: for every path whose image \<^verbatim>\<open>cv2.imread\<close> returns: if \<open>find_corners\<close> returns a
  present corner pair, the command body applies \<open>scale_corners\<close> and then \<open>crop_image\<close>
  to the full-resolution image and asks for exactly one file to be written, named
  \<^verbatim>\<open>output.png\<close> (a relative name, so in the current working directory) and holding the
  crop; if both corners are absent, it asks for no file to be written at all.
\<close>

theorem cropfish_cli_output:
  assumes "imread cv image_path = Some img"
  shows
    "(find_corners cv img 0.5 = (attempts, Inr (Some c1, Some c2)) \<and>
      scale_corners c1 c2 = (s1, s2) \<longrightarrow>
        fst (cropfish_cli cv image_path) =
          Imread image_path # attempts @
            [Print (Rectangle_coordinates s1 s2), Imwrite ''output.png'' (crop_image img s1 s2)] \<and>
        filter is_write (fst (cropfish_cli cv image_path)) =
          [Imwrite ''output.png'' (crop_image img s1 s2)] \<and>
        snd (cropfish_cli cv image_path) =
          (case imwrite cv ''output.png'' (crop_image img s1 s2) of
             Inl e \<Rightarrow> Inl e | Inr written \<Rightarrow> Inr ())) \<and>
     (find_corners cv img 0.5 = (attempts, Inr (None, None)) \<longrightarrow>
        cropfish_cli cv image_path = (Imread image_path # attempts, Inr ()) \<and>
        filter is_write (fst (cropfish_cli cv image_path)) = [])"
proof (intro conjI impI)
  assume h: "find_corners cv img 0.5 = (attempts, Inr (Some c1, Some c2)) \<and>
      scale_corners c1 c2 = (s1, s2)"
  have nw: "filter is_write attempts = []"
    using find_corners_no_write [of cv img "0.5"] h by simp
  show "fst (cropfish_cli cv image_path) =
          Imread image_path # attempts @
            [Print (Rectangle_coordinates s1 s2), Imwrite ''output.png'' (crop_image img s1 s2)]"
    using h by (simp add: cropfish_cli_def assms Let_def split: sum.splits)
  then show "filter is_write (fst (cropfish_cli cv image_path)) =
          [Imwrite ''output.png'' (crop_image img s1 s2)]"
    using nw by simp
  show "snd (cropfish_cli cv image_path) =
          (case imwrite cv ''output.png'' (crop_image img s1 s2) of
             Inl e \<Rightarrow> Inl e | Inr written \<Rightarrow> Inr ())"
    using h by (simp add: cropfish_cli_def assms Let_def split: sum.splits)
next
  assume h: "find_corners cv img 0.5 = (attempts, Inr (None, None))"
  have nw: "filter is_write attempts = []"
    using find_corners_no_write [of cv img "0.5"] h by simp
  show "cropfish_cli cv image_path = (Imread image_path # attempts, Inr ())"
    using h by (simp add: cropfish_cli_def assms)
  then show "filter is_write (fst (cropfish_cli cv image_path)) = []"
    using nw by simp
qed

theorem cropfish_cli_output_witness:
  "imread example_cv ''board.png'' = Some example_image \<and>
   scale_corners (2, 1) (3, 2) = ((11 / 6, 5 / 6), (19 / 6, 13 / 6)) \<and>
   filter is_write (fst (cropfish_cli example_cv ''board.png'')) =
     [Imwrite ''output.png'' \<lparr> nrows = 2, ncols = 2, pixels = [[11, 12], [21, 22]] \<rparr>] \<and>
   imread example_cv_never ''board.png'' = Some example_image \<and>
   filter is_write (fst (cropfish_cli example_cv_never ''board.png'')) = []"
proof -
  have s: "scale_corners (2, 1) (3, 2) = ((11 / 6, 5 / 6), (19 / 6, 13 / 6))"
    by (simp add: scale_corners_def Let_def)
  have c: "crop_image example_image (11 / 6, 5 / 6) (19 / 6, 13 / 6) =
           \<lparr> nrows = 2, ncols = 2, pixels = [[11, 12], [21, 22]] \<rparr>"
    by code_simp
  have found: "filter is_write (fst (cropfish_cli example_cv ''board.png'')) =
     [Imwrite ''output.png'' \<lparr> nrows = 2, ncols = 2, pixels = [[11, 12], [21, 22]] \<rparr>]"
    using cropfish_cli_output [OF example_cv_fields(7), where ?c1.0 = "(2, 1)" and ?c2.0 = "(3, 2)"
        and ?s1.0 = "(11 / 6, 5 / 6)" and ?s2.0 = "(19 / 6, 13 / 6)"]
      example_find_corners(1) s c
    by simp
  have absent: "filter is_write (fst (cropfish_cli example_cv_never ''board.png'')) = []"
    using cropfish_cli_output [OF example_cv_fields(8)] example_find_corners(2) by simp
  show ?thesis
    using found absent s example_cv_fields(7,8) by simp
qed

subsection \<open>Loading the module\<close>

lemma load_module_cases:
  "load_module installed =
     (if ''cv2'' \<notin> set installed then Inl (ModuleNotFoundError ''cv2'')
      else if ''numpy'' \<notin> set installed then Inl (ModuleNotFoundError ''numpy'')
      else if ''typing'' \<notin> set installed then Inl (ModuleNotFoundError ''typing'')
      else Inl (NameError ''click''))"
  by (simp add: load_module_def module_statements_def import_module_def def_function_def
      load_name_def builtin_names_def)

lemma cropfish_cli_reads_first: "fst (cropfish_cli cv image_path) \<noteq> []"
  by (simp add: cropfish_cli_def Let_def split: option.splits sum.splits prod.splits)

text \<open>
  C2: for every invocation, running the file raises before any event of the program
  occurs, and the module never finishes loading, so the command \<open>cropfish_cli\<close> never
  runs; where the three imported modules are installed the exception is the
  \<^verbatim>\<open>NameError\<close> for \<^verbatim>\<open>click\<close>, the name the decorators of \<open>cropfish_cli\<close> evaluate and no
  statement of the file binds.
\<close>

theorem load_module_name_error:
  "fst (run_file installed dunder_name cv image_path) = [] \<and>
   (\<exists>e. snd (run_file installed dunder_name cv image_path) = Inl e) \<and>
   load_module installed \<noteq> Inr ns \<and>
   run_file installed dunder_name cv image_path \<noteq> cropfish_cli cv image_path \<and>
   (''cv2'' \<in> set installed \<and> ''numpy'' \<in> set installed \<and> ''typing'' \<in> set installed \<longrightarrow>
      load_module installed = Inl (NameError ''click'') \<and>
      run_file installed dunder_name cv image_path = ([], Inl (NameError ''click'')))"
proof -
  have f: "fst (run_file installed dunder_name cv image_path) = []"
    by (simp add: run_file_def load_module_cases)
  then have "run_file installed dunder_name cv image_path \<noteq> cropfish_cli cv image_path"
    using cropfish_cli_reads_first [of cv image_path] by metis
  then show ?thesis
    using f by (simp add: run_file_def load_module_cases)
qed

theorem load_module_name_error_witness:
  "''cv2'' \<in> set [''cv2'', ''numpy'', ''typing''] \<and>
   ''numpy'' \<in> set [''cv2'', ''numpy'', ''typing''] \<and>
   ''typing'' \<in> set [''cv2'', ''numpy'', ''typing''] \<and>
   load_module [''cv2'', ''numpy'', ''typing''] = Inl (NameError ''click'') \<and>
   run_file [''cv2'', ''numpy'', ''typing''] ''__main__'' example_cv ''board.png'' =
     ([], Inl (NameError ''click''))"
  using load_module_name_error
      [of "[''cv2'', ''numpy'', ''typing'']" "''__main__''" example_cv "''board.png''"]
  by simp

end
